theory Spec2Isabelle
  imports Main "HOL-Library.DAList"
begin

section \<open>The log regression checker\<close>

text \<open>
  The source is \<^verbatim>\<open>dev/log-regression-checker/log_regression_checker.py\<close>, a Python 2
  module of three functions: \<^verbatim>\<open>check\<close>, \<^verbatim>\<open>update_master\<close> and \<^verbatim>\<open>update_release\<close>.

  Two of them update a dictionary in place through a second name for it
  (\<^verbatim>\<open>merged_files = configs["unmerged"]\<close>), so the dictionaries live in a store and
  the functions pass references around, as Python does. A dictionary is an association
  list with distinct keys (type \<open>alist\<close>); the order of the list stands for the order in
  which Python iterates over the dictionary, about which Python 2 promises nothing.
\<close>

subsection \<open>Dictionaries\<close>

type_synonym ref = nat

definition dict_keys :: "('k, 'v) alist \<Rightarrow> 'k list" where
  \<comment> \<open>\<^verbatim>\<open>d.keys()\<close>\<close>
  "dict_keys d = map fst (DAList.impl_of d)"

definition dict_values :: "('k, 'v) alist \<Rightarrow> 'v list" where
  \<comment> \<open>\<^verbatim>\<open>d.values()\<close>: in Python 2 a list, in the order of iteration\<close>
  "dict_values d = map snd (DAList.impl_of d)"

definition dict_update :: "('k, 'v) alist \<Rightarrow> ('k, 'v) alist \<Rightarrow> ('k, 'v) alist" where
  \<comment> \<open>the contents of \<open>d\<close> after \<^verbatim>\<open>d.update(other)\<close>: every item of \<open>other\<close> is stored in \<open>d\<close>\<close>
  "dict_update d other = fold (\<lambda>(k, v). DAList.update k v) (DAList.impl_of other) d"

fun join :: "string \<Rightarrow> string list \<Rightarrow> string" where
  \<comment> \<open>\<^verbatim>\<open>sep.join(xs)\<close>\<close>
  "join sep [] = []"
| "join sep [x] = x"
| "join sep (x # y # ys) = x @ sep @ join sep (y # ys)"

subsection \<open>The store and standard output\<close>

text \<open>
  What a \<^verbatim>\<open>print\<close> statement writes: a line of text, or a line that ends with the
  \<^verbatim>\<open>str\<close> of a log line (\<^verbatim>\<open>print "  - Offending log line:", log_line\<close>) or is the
  \<^verbatim>\<open>repr\<close> of a one-entry dictionary (\<^verbatim>\<open>print {tag: merged_files}\<close>). The type \<open>'l\<close>
  is the type of the log lines that \<^verbatim>\<open>parse_log_lines\<close> returns.
\<close>

datatype 'l printed =
    Line string
  | Offending_log_line 'l
  | Appending string "(string \<times> string) list"

text \<open>
  The store: the flat dictionaries from names to file paths (\<open>dicts\<close>), the archive
  dictionaries from release tags to such dictionaries (\<open>archs\<close>, holding references), the
  first reference not yet in use, and what has been printed so far.
\<close>

record 'l world =
  dicts :: "ref \<Rightarrow> (string, string) alist"
  archs :: "ref \<Rightarrow> (string, ref) alist"
  next_ref :: ref
  stdout :: "'l printed list"

text \<open>
  A configuration is a dictionary with the two keys \<^verbatim>\<open>"unmerged"\<close> and \<^verbatim>\<open>"master"\<close>;
  \<open>unmerged configs\<close> is \<^verbatim>\<open>configs["unmerged"]\<close>, a reference to a flat dictionary.
\<close>

record configs =
  unmerged :: ref
  master :: ref

definition master_branch :: string where
  "master_branch = ''origin/master''"

definition print_line :: "'l printed \<Rightarrow> 'l world \<Rightarrow> 'l world" where
  "print_line x w = w\<lparr>stdout := stdout w @ [x]\<rparr>"

definition new_dict :: "'l world \<Rightarrow> ref \<times> 'l world" where
  \<comment> \<open>the literal \<^verbatim>\<open>{}\<close>: a new, empty dictionary\<close>
  "new_dict w =
     (next_ref w,
      w\<lparr>dicts := (dicts w)(next_ref w := DAList.empty), next_ref := Suc (next_ref w)\<rparr>)"

definition update_in_place :: "ref \<Rightarrow> ref \<Rightarrow> 'l world \<Rightarrow> 'l world" where
  \<comment> \<open>\<^verbatim>\<open>d.update(other)\<close> on the objects that \<open>d\<close> and \<open>other\<close> refer to\<close>
  "update_in_place d other w =
     w\<lparr>dicts := (dicts w)(d := dict_update (dicts w d) (dicts w other))\<rparr>"

subsection \<open>check\<close>

text \<open>
  The first loop of \<^verbatim>\<open>check\<close>, which fills the list \<^verbatim>\<open>files_to_check\<close>.
\<close>

definition files_to_check :: "configs \<Rightarrow> 'l world \<Rightarrow> string list" where
  "files_to_check configs w =
     (let excluded_files = dict_values (dicts w (unmerged configs))
      in fold (\<lambda>file_to_check files.
                 if file_to_check \<notin> set excluded_files then files @ [file_to_check] else files)
           (dict_values (dicts w (master configs))) [])"

text \<open>
  The body of the inner loop, for one \<^verbatim>\<open>log_line\<close> of the current contents. The
  dictionary \<^verbatim>\<open>failures\<close> is created by \<^verbatim>\<open>check\<close> and nothing else refers to it, so
  it is passed as a value.
\<close>

definition check_log_line ::
  "string \<Rightarrow> 'l list \<Rightarrow> bool \<Rightarrow> 'l \<Rightarrow>
   (string, 'l list) alist \<times> 'l world \<Rightarrow> (string, 'l list) alist \<times> 'l world" where
  "check_log_line log_file expected_log_lines verbose log_line = (\<lambda>(failures, w).
     if log_line \<notin> set expected_log_lines then
       let w1 = print_line (Line (''ERROR: File '' @ log_file @
                  '' contains different logs from those on origin/master'')) w;
           w2 = (if verbose then print_line (Offending_log_line log_line) w1 else w1);
           failures1 = (if log_file \<notin> set (dict_keys failures)
                        then DAList.update log_file [] failures else failures);
           failures2 = DAList.map_entry log_file (\<lambda>log_lines. log_lines @ [log_line]) failures1
       in (failures2, w2)
     else (failures, w))"

text \<open>
  The body of the outer loop, for one \<^verbatim>\<open>log_file\<close>. The function \<^verbatim>\<open>parse_log_lines\<close>
  is imported from a module that is not part of the source, and the two functions that
  fetch a file's contents are arguments of \<^verbatim>\<open>check\<close>: all three are parameters here,
  functions that return a value and touch nothing. \<^verbatim>\<open>check\<close> catches no exception, so
  a call of one of them that raises ends \<^verbatim>\<open>check\<close> without a report; the model is of
  the runs in which they return.
\<close>

definition check_log_file ::
  "(string \<Rightarrow> 'l list) \<Rightarrow> (string \<Rightarrow> string) \<Rightarrow> (string \<Rightarrow> string) \<Rightarrow> bool \<Rightarrow> string \<Rightarrow>
   (string, 'l list) alist \<times> 'l world \<Rightarrow> (string, 'l list) alist \<times> 'l world" where
  "check_log_file parse_log_lines get_master_contents get_current_contents verbose log_file s =
     (let expected_log_lines = parse_log_lines (get_master_contents log_file);
          current_log_lines = parse_log_lines (get_current_contents log_file)
      in fold (check_log_line log_file expected_log_lines verbose) current_log_lines s)"

definition check ::
  "(string \<Rightarrow> 'l list) \<Rightarrow> configs \<Rightarrow> (string \<Rightarrow> string) \<Rightarrow> (string \<Rightarrow> string) \<Rightarrow> bool \<Rightarrow>
   'l world \<Rightarrow> (string, 'l list) alist \<times> 'l world" where
  "check parse_log_lines configs get_master_contents get_current_contents verbose w =
     (let files = files_to_check configs w;
          w1 = print_line (Line ''Checking files in the following list: '') w;
          w2 = print_line (Line (join [CHR 0x0A] files)) w1;
          (failures, w3) =
             fold (check_log_file parse_log_lines get_master_contents get_current_contents verbose)
               files (DAList.empty, w2);
          w4 = (if length (dict_keys failures) \<noteq> 0
                then print_line
                       (Line ''Please check these files and add them to the 'unmerged' section of the file.'')
                       (print_line
                          (Line ''Some files in 'files-to-inspect.json' are different on origin/master.'')
                          w3)
                else print_line (Line ''Log regression checker passed.'') w3)
      in (failures, w4))"

subsection \<open>update_master and update_release\<close>

definition update_master :: "configs \<Rightarrow> bool \<Rightarrow> 'l world \<Rightarrow> configs \<times> 'l world" where
  "update_master configs verbose w =
     (let w1 = print_line (Line ''Updating files-to-inspect.json'') w;
          merged_files = unmerged configs;
          w2 = update_in_place merged_files (master configs) w1;
          (empty_dict, w3) = new_dict w2;
          new_contents = \<lparr>unmerged = empty_dict, master = merged_files\<rparr>
      in (new_contents, w3))"

definition update_release ::
  "configs \<Rightarrow> ref \<Rightarrow> string \<Rightarrow> bool \<Rightarrow> bool \<Rightarrow> 'l world \<Rightarrow> ref \<times> 'l world" where
  "update_release configs archives tag verbose dry_run w =
     (let w1 = print_line (Line ''Updating files-to-inspect-archive.json'') w;
          merged_files = unmerged configs;
          w2 = update_in_place merged_files (master configs) w1;
          w3 = w2\<lparr>archs := (archs w2)
                  (archives := DAList.update tag merged_files (archs w2 archives))\<rparr>;
          w4 = (if verbose
                then print_line (Appending tag (DAList.impl_of (dicts w3 merged_files)))
                       (print_line
                          (Line ''Appending the following if it doesn't already exist:'') w3)
                else w3)
      in (archives, w4))"

subsection \<open>Example inputs\<close>

text \<open>
  A store with the configuration
  \<^verbatim>\<open>{"unmerged": {"k": "u.log"}, "master": {"k": "m.log", "j": "x.log"}}\<close>
  (references 0 and 1), an older snapshot (reference 2) and the archive
  \<^verbatim>\<open>{"v0": <the snapshot>}\<close> (reference 3).
\<close>

definition example_unmerged :: "(string, string) alist" where
  "example_unmerged = DAList.update ''k'' ''u.log'' DAList.empty"

definition example_master :: "(string, string) alist" where
  "example_master = DAList.update ''j'' ''x.log'' (DAList.update ''k'' ''m.log'' DAList.empty)"

definition example_snapshot :: "(string, string) alist" where
  "example_snapshot = DAList.update ''k'' ''old.log'' DAList.empty"

definition example_world :: "char world" where
  "example_world =
     \<lparr>dicts = (\<lambda>r. DAList.empty)(0 := example_unmerged, 1 := example_master, 2 := example_snapshot),
      archs = (\<lambda>r. DAList.empty)(3 := DAList.update ''v0'' 2 DAList.empty),
      next_ref = 4,
      stdout = []\<rparr>"

definition example_configs :: configs where
  "example_configs = \<lparr>unmerged = 0, master = 1\<rparr>"

text \<open>
  A store in which the archive already holds, under the tag \<^verbatim>\<open>"v0"\<close>, the very
  dictionary that is \<^verbatim>\<open>configs["unmerged"]\<close> (reference 0), as it does after an earlier
  \<^verbatim>\<open>update_release(configs, archives, "v0")\<close>.
\<close>

definition shared_world :: "char world" where
  "shared_world =
     \<lparr>dicts = (\<lambda>r. DAList.empty)(0 := example_unmerged, 1 := example_master),
      archs = (\<lambda>r. DAList.empty)(3 := DAList.update ''v0'' 0 DAList.empty),
      next_ref = 4,
      stdout = []\<rparr>"

text \<open>
  Collaborators for the examples: a file's text has one character per log line, the master
  contents of every file are the lines \<open>1, 2\<close>, the current contents \<open>1, 3\<close> (one
  line that master does not have) or \<open>2, 1\<close> (none).
\<close>

definition example_parse :: "string \<Rightarrow> char list" where
  "example_parse text = text"

definition example_master_contents :: "string \<Rightarrow> string" where
  "example_master_contents path = ''12''"

definition example_regressed_contents :: "string \<Rightarrow> string" where
  "example_regressed_contents path = ''13''"

definition example_clean_contents :: "string \<Rightarrow> string" where
  "example_clean_contents path = ''21''"

section \<open>Facts about dictionaries\<close>

lemma set_dict_keys: "set (dict_keys d) = dom (DAList.lookup d)"
  by (simp add: dict_keys_def DAList.lookup.rep_eq dom_map_of_conv_image_fst)

lemma in_dict_keys: "k \<in> set (dict_keys d) \<longleftrightarrow> DAList.lookup d k \<noteq> None"
  by (auto simp: set_dict_keys)

lemma dict_keys_Nil_iff: "dict_keys d = [] \<longleftrightarrow> d = DAList.empty"
  by (simp add: dict_keys_def DAList.alist_eq_iff DAList.empty.rep_eq)

lemma dict_empty_iff: "d = DAList.empty \<longleftrightarrow> (\<forall>k. DAList.lookup d k = None)"
proof
  assume "\<forall>k. DAList.lookup d k = None"
  then have "dom (DAList.lookup d) = {}" by auto
  then have "set (dict_keys d) = {}" by (simp add: set_dict_keys)
  then show "d = DAList.empty" by (simp add: dict_keys_Nil_iff)
qed simp

lemma lookup_map_entry:
  "DAList.lookup (DAList.map_entry k f d) =
     (DAList.lookup d)(k := map_option f (DAList.lookup d k))"
  by transfer (auto simp: map_of_map_entry split: option.splits)

text \<open>
  Storing the items of a list with distinct keys one after the other gives the map of
  the dictionary overridden by the map of the list.
\<close>

lemma lookup_fold_update:
  "distinct (map fst xs) \<Longrightarrow>
   DAList.lookup (fold (\<lambda>(k, v). DAList.update k v) xs d) = DAList.lookup d ++ map_of xs"
proof (induction xs arbitrary: d)
  case Nil
  then show ?case by simp
next
  case (Cons x xs)
  obtain k v where x: "x = (k, v)" by (cases x)
  from Cons.prems x have notin: "k \<notin> fst ` set xs" and dist: "distinct (map fst xs)" by auto
  have "DAList.lookup (fold (\<lambda>(k, v). DAList.update k v) (x # xs) d)
        = DAList.lookup (DAList.update k v d) ++ map_of xs"
    using Cons.IH [OF dist] x by simp
  also have "\<dots> = DAList.lookup d ++ map_of (x # xs)"
  proof
    fix j
    show "(DAList.lookup (DAList.update k v d) ++ map_of xs) j =
          (DAList.lookup d ++ map_of (x # xs)) j"
    proof -
      from notin have "map_of xs k = None" by (simp add: map_of_eq_None_iff)
      then show ?thesis
        using x by (auto simp: map_add_def DAList.lookup_update split: option.splits)
    qed
  qed
  finally show ?case .
qed

lemma lookup_dict_update:
  "DAList.lookup (dict_update d other) = DAList.lookup d ++ DAList.lookup other"
proof -
  have "DAList.lookup (dict_update d other) = DAList.lookup d ++ map_of (DAList.impl_of other)"
    unfolding dict_update_def by (rule lookup_fold_update) simp
  then show ?thesis by (simp add: DAList.lookup.rep_eq)
qed

lemma lookup_merged:
  "DAList.lookup (dict_update d other) k =
     (case DAList.lookup other k of Some v \<Rightarrow> Some v | None \<Rightarrow> DAList.lookup d k)"
  by (simp add: lookup_dict_update map_add_def)

text \<open>
  \<^verbatim>\<open>d.update(d)\<close> leaves \<open>d\<close> as it is: each item stored is the item that is there.
\<close>

lemma fold_update_triv:
  "(\<forall>(k, v) \<in> set xs. DAList.lookup d k = Some v) \<Longrightarrow>
   fold (\<lambda>(k, v). DAList.update k v) xs d = d"
proof (induction xs)
  case Nil
  then show ?case by simp
next
  case (Cons x xs)
  obtain k v where x: "x = (k, v)" by (cases x)
  with Cons.prems have "DAList.lookup d k = Some v" by simp
  then have "DAList.update k v d = d"
    by transfer (simp add: update_triv)
  with Cons x show ?case by simp
qed

lemma dict_update_self: "dict_update d d = d"
  unfolding dict_update_def
  by (rule fold_update_triv) (auto simp: DAList.lookup.rep_eq)

lemma fold_append_if:
  "fold (\<lambda>x acc. if P x then acc @ [x] else acc) xs ys = ys @ filter P xs"
  by (induction xs arbitrary: ys) simp_all


section \<open>What update_master and update_release compute\<close>

lemma update_master_unfold:
  "update_master configs verbose w =
     (\<lparr>unmerged = next_ref w, master = unmerged configs\<rparr>,
      w\<lparr>dicts := (dicts w)
             (unmerged configs := dict_update (dicts w (unmerged configs)) (dicts w (master configs)),
              next_ref w := DAList.empty),
        next_ref := Suc (next_ref w),
        stdout := stdout w @ [Line ''Updating files-to-inspect.json'']\<rparr>)"
  by (simp add: update_master_def print_line_def update_in_place_def new_dict_def Let_def)

lemma update_release_unfold:
  "update_release configs archives tag verbose dry_run w =
     (archives,
      w\<lparr>dicts := (dicts w)
             (unmerged configs := dict_update (dicts w (unmerged configs)) (dicts w (master configs))),
        archs := (archs w)(archives := DAList.update tag (unmerged configs) (archs w archives)),
        stdout := stdout w @ [Line ''Updating files-to-inspect-archive.json''] @
          (if verbose
           then [Line ''Appending the following if it doesn't already exist:'',
                 Appending tag (DAList.impl_of
                   (dict_update (dicts w (unmerged configs)) (dicts w (master configs))))]
           else [])\<rparr>)"
  by (simp add: update_release_def print_line_def update_in_place_def Let_def)

text \<open>
  The only flat dictionary whose contents \<^verbatim>\<open>update_release\<close> changes is
  \<^verbatim>\<open>configs["unmerged"]\<close>.
\<close>

lemma update_release_other_objects:
  assumes "r \<noteq> unmerged configs"
  shows "dicts (snd (update_release configs archives tag verbose dry_run w)) r = dicts w r"
  using assms by (simp add: update_release_unfold)

section \<open>What check computes\<close>

lemma files_to_check_filter:
  "files_to_check configs w =
     filter (\<lambda>path. path \<notin> set (dict_values (dicts w (unmerged configs))))
       (dict_values (dicts w (master configs)))"
  by (simp add: files_to_check_def Let_def fold_append_if)

subsection \<open>The failure report\<close>

text \<open>
  One log line: if master does not have it, it is appended to the entry of the file, which
  is created when it is not there.
\<close>

lemma check_log_line_failures:
  "DAList.lookup (fst (check_log_line log_file expected verbose log_line (failures, w))) f =
     (if log_line \<notin> set expected \<and> f = log_file
      then Some ((case DAList.lookup failures log_file of None \<Rightarrow> [] | Some ls \<Rightarrow> ls) @ [log_line])
      else DAList.lookup failures f)"
  by (auto simp: check_log_line_def Let_def lookup_map_entry in_dict_keys DAList.lookup_update)

lemma check_log_lines_failures:
  "DAList.lookup (fst (fold (check_log_line log_file expected verbose) current s)) f =
     (if f = log_file \<and> filter (\<lambda>l. l \<notin> set expected) current \<noteq> []
      then Some ((case DAList.lookup (fst s) log_file of None \<Rightarrow> [] | Some ls \<Rightarrow> ls) @
                 filter (\<lambda>l. l \<notin> set expected) current)
      else DAList.lookup (fst s) f)"
proof (induction current arbitrary: s)
  case Nil
  then show ?case by simp
next
  case (Cons l ls)
  obtain failures w where s: "s = (failures, w)" by (cases s)
  show ?case
    by (auto simp: Cons.IH s check_log_line_failures)
qed

lemma check_log_file_failures:
  "DAList.lookup (fst (check_log_file p gm gc verbose log_file s)) f =
     (if f = log_file \<and> filter (\<lambda>l. l \<notin> set (p (gm log_file))) (p (gc log_file)) \<noteq> []
      then Some ((case DAList.lookup (fst s) log_file of None \<Rightarrow> [] | Some ls \<Rightarrow> ls) @
                 filter (\<lambda>l. l \<notin> set (p (gm log_file))) (p (gc log_file)))
      else DAList.lookup (fst s) f)"
  by (simp add: check_log_file_def Let_def check_log_lines_failures)

text \<open>
  All files: a file that is in the list \<open>n\<close> times is checked \<open>n\<close> times, and each time
  its lines that master does not have are appended to its entry.
\<close>

lemma check_log_files_failures:
  "DAList.lookup (fst (fold (check_log_file p gm gc verbose) files s)) f =
     (if f \<in> set files \<and> filter (\<lambda>l. l \<notin> set (p (gm f))) (p (gc f)) \<noteq> []
      then Some ((case DAList.lookup (fst s) f of None \<Rightarrow> [] | Some ls \<Rightarrow> ls) @
                 concat (replicate (count_list files f)
                   (filter (\<lambda>l. l \<notin> set (p (gm f))) (p (gc f)))))
      else DAList.lookup (fst s) f)"
proof (induction files arbitrary: s)
  case Nil
  then show ?case by simp
next
  case (Cons g gs)
  show ?case
    by (simp add: Cons.IH check_log_file_failures)
qed

lemma check_failures:
  "fst (check p configs gm gc verbose w) =
   fst (fold (check_log_file p gm gc verbose) (files_to_check configs w)
         (DAList.empty,
          print_line (Line (join [CHR 0x0A] (files_to_check configs w)))
            (print_line (Line ''Checking files in the following list: '') w)))"
  by (simp add: check_def Let_def split: prod.splits)

lemma check_lookup:
  "DAList.lookup (fst (check p configs gm gc verbose w)) f =
     (if f \<in> set (files_to_check configs w) \<and>
         filter (\<lambda>l. l \<notin> set (p (gm f))) (p (gc f)) \<noteq> []
      then Some (concat (replicate (count_list (files_to_check configs w) f)
                   (filter (\<lambda>l. l \<notin> set (p (gm f))) (p (gc f)))))
      else None)"
  by (simp add: check_failures check_log_files_failures)

subsection \<open>The store after check\<close>

lemma print_line_frame:
  "dicts (print_line x w) = dicts w"
  "archs (print_line x w) = archs w"
  "next_ref (print_line x w) = next_ref w"
  by (simp_all add: print_line_def)

lemma check_log_line_frame:
  "dicts (snd (check_log_line log_file expected verbose log_line s)) = dicts (snd s) \<and>
   archs (snd (check_log_line log_file expected verbose log_line s)) = archs (snd s) \<and>
   next_ref (snd (check_log_line log_file expected verbose log_line s)) = next_ref (snd s)"
  by (cases s) (simp add: check_log_line_def Let_def print_line_frame)

lemma check_log_file_frame:
  "dicts (snd (check_log_file p gm gc verbose log_file s)) = dicts (snd s) \<and>
   archs (snd (check_log_file p gm gc verbose log_file s)) = archs (snd s) \<and>
   next_ref (snd (check_log_file p gm gc verbose log_file s)) = next_ref (snd s)"
proof -
  have "dicts (snd (fold (check_log_line log_file expected verbose) current s)) = dicts (snd s) \<and>
        archs (snd (fold (check_log_line log_file expected verbose) current s)) = archs (snd s) \<and>
        next_ref (snd (fold (check_log_line log_file expected verbose) current s)) = next_ref (snd s)"
    for expected current
    by (induction current arbitrary: s) (simp_all add: check_log_line_frame)
  then show ?thesis by (simp add: check_log_file_def Let_def)
qed

lemma check_log_files_frame:
  "dicts (snd (fold (check_log_file p gm gc verbose) files s)) = dicts (snd s) \<and>
   archs (snd (fold (check_log_file p gm gc verbose) files s)) = archs (snd s) \<and>
   next_ref (snd (fold (check_log_file p gm gc verbose) files s)) = next_ref (snd s)"
  by (induction files arbitrary: s) (simp_all add: check_log_file_frame)

lemma check_frame:
  "dicts (snd (check p configs gm gc verbose w)) = dicts w \<and>
   archs (snd (check p configs gm gc verbose w)) = archs w \<and>
   next_ref (snd (check p configs gm gc verbose w)) = next_ref w"
proof -
  let ?s = "(DAList.empty, print_line (Line (join [CHR 0x0A] (files_to_check configs w)))
            (print_line (Line ''Checking files in the following list: '') w))"
  let ?r = "fold (check_log_file p gm gc verbose) (files_to_check configs w) ?s"
  have "dicts (snd ?r) = dicts w \<and> archs (snd ?r) = archs w \<and> next_ref (snd ?r) = next_ref w"
    using check_log_files_frame [of p gm gc verbose "files_to_check configs w" ?s]
    by (simp add: print_line_frame)
  then show ?thesis
    by (simp add: check_def Let_def case_prod_beta print_line_frame)
qed

section \<open>The claims\<close>

text \<open>
  In the theorems about \<^verbatim>\<open>update_master\<close> the hypothesis \<open>unmerged configs < next_ref w\<close>
  says that \<^verbatim>\<open>configs["unmerged"]\<close> is an object of the store: its reference is in use, so
  the new dictionary that \<^verbatim>\<open>{}\<close> creates is another object.
\<close>

subsection \<open>Claims about update_master\<close>

text \<open>
  Claim C1, as amended. For every configuration, \<^verbatim>\<open>update_master\<close> returns a
  configuration whose \<^verbatim>\<open>master\<close> dictionary is the union of the input's \<^verbatim>\<open>master\<close> and
  \<^verbatim>\<open>unmerged\<close> dictionaries: a key of the input's \<^verbatim>\<open>master\<close> has the value it has there,
  also when \<^verbatim>\<open>unmerged\<close> has the key too, and any other key has what \<^verbatim>\<open>unmerged\<close> has
  for it. On a key of both, the value of \<^verbatim>\<open>master\<close> takes precedence, since the code
  runs \<^verbatim>\<open>configs["unmerged"].update(configs["master"])\<close>.
\<close>

theorem update_master_master_precedence:
  assumes "unmerged configs < next_ref w"
  shows "(let (new_contents, w') = update_master configs verbose w
          in DAList.lookup (dicts w' (master new_contents)) k =
               (case DAList.lookup (dicts w (master configs)) k of
                  Some path \<Rightarrow> Some path
                | None \<Rightarrow> DAList.lookup (dicts w (unmerged configs)) k))"
  using assms by (simp add: update_master_unfold lookup_merged)

theorem update_master_master_precedence_witness:
  "unmerged example_configs < next_ref example_world \<and>
   DAList.lookup (dicts example_world (unmerged example_configs)) ''k'' = Some ''u.log'' \<and>
   DAList.lookup (dicts example_world (master example_configs)) ''k'' = Some ''m.log'' \<and>
   DAList.lookup
     (dicts (snd (update_master example_configs False example_world))
        (master (fst (update_master example_configs False example_world)))) ''k'' = Some ''m.log''"
proof -
  have h: "unmerged example_configs < next_ref example_world"
    by (simp add: example_world_def example_configs_def)
  show ?thesis
    using h update_master_master_precedence
      [OF h, where verbose = False and k = "''k''"]
    by (simp add: case_prod_beta
          example_world_def example_configs_def example_unmerged_def example_master_def
          example_snapshot_def)
qed

text \<open>
  Claim C1 as stated fails: with \<^verbatim>\<open>unmerged = {"k": "u.log"}\<close> and
  \<^verbatim>\<open>master = {"k": "m.log", "j": "x.log"}\<close> the returned \<^verbatim>\<open>master\<close> maps \<^verbatim>\<open>"k"\<close> to
  \<^verbatim>\<open>"m.log"\<close>, the value of the input's \<^verbatim>\<open>master\<close>, not to \<^verbatim>\<open>"u.log"\<close>, the value of
  its \<^verbatim>\<open>unmerged\<close>.
\<close>

theorem update_master_unmerged_precedence_counterexample:
  "DAList.lookup (dicts example_world (unmerged example_configs)) ''k'' = Some ''u.log'' \<and>
   DAList.lookup (dicts example_world (master example_configs)) ''k'' = Some ''m.log'' \<and>
   DAList.lookup
     (dicts (snd (update_master example_configs False example_world))
        (master (fst (update_master example_configs False example_world)))) ''k'' = Some ''m.log'' \<and>
   DAList.lookup
     (dicts (snd (update_master example_configs False example_world))
        (master (fst (update_master example_configs False example_world)))) ''k''
     \<noteq> DAList.lookup (dicts example_world (unmerged example_configs)) ''k''"
  by (simp add: update_master_unfold lookup_merged
        example_world_def example_configs_def example_unmerged_def example_master_def
        example_snapshot_def)

text \<open>
  Claim C2, as amended. \<^verbatim>\<open>update_master\<close> leaves the \<^verbatim>\<open>master\<close> dictionary of the input
  configuration unchanged, and every other dictionary that exists before the call but one:
  the input's \<^verbatim>\<open>unmerged\<close> dictionary is updated in place with the items of \<^verbatim>\<open>master\<close>,
  and this object is the \<^verbatim>\<open>master\<close> of the configuration returned
  (\<^verbatim>\<open>merged_files\<close> is a second name for \<^verbatim>\<open>configs["unmerged"]\<close>, not a copy). Besides
  that, the call prints one progress message and touches no archive.
\<close>

theorem update_master_effects:
  assumes "unmerged configs < next_ref w" and "master configs < next_ref w"
  shows "(let (new_contents, w') = update_master configs verbose w
          in dicts w' (master configs) = dicts w (master configs) \<and>
             master new_contents = unmerged configs \<and>
             DAList.lookup (dicts w' (unmerged configs)) =
               DAList.lookup (dicts w (unmerged configs)) ++ DAList.lookup (dicts w (master configs)) \<and>
             (\<forall>r. r < next_ref w \<and> r \<noteq> unmerged configs \<longrightarrow> dicts w' r = dicts w r) \<and>
             archs w' = archs w \<and>
             stdout w' = stdout w @ [Line ''Updating files-to-inspect.json''])"
  using assms by (auto simp: update_master_unfold lookup_dict_update dict_update_self)

theorem update_master_effects_witness:
  "unmerged example_configs < next_ref example_world \<and>
   master example_configs < next_ref example_world \<and>
   dicts (snd (update_master example_configs False example_world)) (master example_configs)
     = dicts example_world (master example_configs) \<and>
   stdout (snd (update_master example_configs False example_world))
     = [Line ''Updating files-to-inspect.json'']"
proof -
  have h: "unmerged example_configs < next_ref example_world"
          "master example_configs < next_ref example_world"
    by (simp_all add: example_world_def example_configs_def)
  have "stdout example_world = []"
    by (simp add: example_world_def)
  with h show ?thesis
    using update_master_effects [OF h, where verbose = False, unfolded Let_def case_prod_beta]
    by simp
qed

text \<open>
  Claim C2 as stated fails: in the example the input's \<^verbatim>\<open>unmerged\<close> dictionary has no key
  \<^verbatim>\<open>"j"\<close> before the call and maps \<^verbatim>\<open>"j"\<close> to \<^verbatim>\<open>"x.log"\<close> after it.
\<close>

theorem update_master_pure_counterexample:
  "DAList.lookup (dicts example_world (unmerged example_configs)) ''j'' = None \<and>
   DAList.lookup
     (dicts (snd (update_master example_configs False example_world)) (unmerged example_configs))
     ''j'' = Some ''x.log'' \<and>
   dicts (snd (update_master example_configs False example_world)) (unmerged example_configs)
     \<noteq> dicts example_world (unmerged example_configs)"
proof -
  have before: "DAList.lookup (dicts example_world (unmerged example_configs)) ''j'' = None"
    by (simp add:
          example_world_def example_configs_def example_unmerged_def example_master_def
          example_snapshot_def)
  have after: "DAList.lookup
     (dicts (snd (update_master example_configs False example_world)) (unmerged example_configs))
     ''j'' = Some ''x.log''"
    by (simp add: update_master_unfold lookup_merged
          example_world_def example_configs_def example_unmerged_def example_master_def
          example_snapshot_def)
  from before after
  have "dicts (snd (update_master example_configs False example_world)) (unmerged example_configs)
     \<noteq> dicts example_world (unmerged example_configs)"
    by (metis option.distinct(1))
  with before after show ?thesis by simp
qed

text \<open>
  Claim C7. For every configuration, the configuration that \<^verbatim>\<open>update_master\<close> returns
  has an empty \<^verbatim>\<open>unmerged\<close> dictionary, and the keys of its \<^verbatim>\<open>master\<close> dictionary are the
  keys of the input's \<^verbatim>\<open>master\<close> together with the keys of the input's \<^verbatim>\<open>unmerged\<close>.
\<close>

theorem update_master_keys:
  assumes "unmerged configs < next_ref w"
  shows "(let (new_contents, w') = update_master configs verbose w
          in dicts w' (unmerged new_contents) = DAList.empty \<and>
             set (dict_keys (dicts w' (master new_contents))) =
               set (dict_keys (dicts w (master configs))) \<union>
               set (dict_keys (dicts w (unmerged configs))))"
  using assms by (auto simp: update_master_unfold set_dict_keys lookup_dict_update)

theorem update_master_keys_witness:
  "unmerged example_configs < next_ref example_world \<and>
   dicts (snd (update_master example_configs False example_world))
     (unmerged (fst (update_master example_configs False example_world))) = DAList.empty \<and>
   set (dict_keys (dicts (snd (update_master example_configs False example_world))
     (master (fst (update_master example_configs False example_world))))) = {''j'', ''k''}"
proof -
  have h: "unmerged example_configs < next_ref example_world"
    by (simp add: example_world_def example_configs_def)
  have keys: "set (dict_keys (dicts example_world (master example_configs))) \<union>
      set (dict_keys (dicts example_world (unmerged example_configs))) = {''j'', ''k''}"
    by (auto simp: dict_keys_def DAList.update.rep_eq DAList.empty.rep_eq
         
                example_world_def example_configs_def example_unmerged_def example_master_def
                example_snapshot_def)
  show ?thesis
    using h keys update_master_keys [OF h, where verbose = False]
    by (simp add: case_prod_beta)
qed

subsection \<open>Claims about update_release\<close>

text \<open>
  Claim C3, as amended. For every configuration, archive and tag, \<^verbatim>\<open>update_release\<close>
  stores under \<^verbatim>\<open>tag\<close>, whatever the archive held there before, the merged dictionary
  that \<^verbatim>\<open>update_master\<close> returns as \<^verbatim>\<open>master\<close> for the same configuration: it is the same
  object with the same contents, the union of the configuration's \<^verbatim>\<open>master\<close> and
  \<^verbatim>\<open>unmerged\<close> in which \<^verbatim>\<open>master\<close> wins on a key of both.
\<close>

theorem update_release_stores_merged:
  assumes "unmerged configs < next_ref w"
  shows "(let (archives', w') = update_release configs archives tag verbose dry_run w;
              (new_contents, w'') = update_master configs verbose' w
          in DAList.lookup (archs w' archives') tag = Some (master new_contents) \<and>
             dicts w' (master new_contents) = dicts w'' (master new_contents) \<and>
             DAList.lookup (dicts w' (master new_contents)) k =
               (case DAList.lookup (dicts w (master configs)) k of
                  Some path \<Rightarrow> Some path
                | None \<Rightarrow> DAList.lookup (dicts w (unmerged configs)) k))"
  using assms by (simp add: update_master_unfold update_release_unfold lookup_merged)

theorem update_release_stores_merged_witness:
  "unmerged example_configs < next_ref example_world \<and>
   DAList.lookup
     (archs (snd (update_release example_configs 3 ''v0'' True True example_world))
        (fst (update_release example_configs 3 ''v0'' True True example_world))) ''v0''
     = Some (master (fst (update_master example_configs False example_world))) \<and>
   DAList.lookup
     (dicts (snd (update_release example_configs 3 ''v0'' True True example_world))
        (master (fst (update_master example_configs False example_world)))) ''k''
     = Some ''m.log''"
proof -
  let ?R = "update_release example_configs 3 ''v0'' True True example_world"
  let ?M = "update_master example_configs False example_world"
  have h: "unmerged example_configs < next_ref example_world"
    by (simp add: example_world_def example_configs_def)
  from update_release_stores_merged
      [OF h, where archives = 3 and tag = "''v0''" and verbose = True and dry_run = True
         and verbose' = False and k = "''k''", unfolded Let_def case_prod_beta]
  have stored: "DAList.lookup (archs (snd ?R) (fst ?R)) ''v0'' = Some (master (fst ?M))"
    and merged: "DAList.lookup (dicts (snd ?R) (master (fst ?M))) ''k'' =
      (case DAList.lookup (dicts example_world (master example_configs)) ''k'' of
         Some path \<Rightarrow> Some path
       | None \<Rightarrow> DAList.lookup (dicts example_world (unmerged example_configs)) ''k'')"
    by blast+
  have "DAList.lookup (dicts example_world (master example_configs)) ''k'' = Some ''m.log''"
    by (simp add:
          example_world_def example_configs_def example_unmerged_def example_master_def
          example_snapshot_def)
  with h stored merged show ?thesis by simp
qed

text \<open>
  Claim C3 as stated fails, in its words \<open>with unmerged winning on key collision\<close>: in
  the example the dictionary stored under the tag \<^verbatim>\<open>"v1"\<close> (the object with reference 0)
  maps \<^verbatim>\<open>"k"\<close> to \<^verbatim>\<open>"m.log"\<close>, the value of \<^verbatim>\<open>master\<close>, where \<^verbatim>\<open>unmerged\<close> had
  \<^verbatim>\<open>"u.log"\<close>.
\<close>

theorem update_release_unmerged_precedence_counterexample:
  "DAList.lookup (dicts example_world (unmerged example_configs)) ''k'' = Some ''u.log'' \<and>
   DAList.lookup (dicts example_world (master example_configs)) ''k'' = Some ''m.log'' \<and>
   DAList.lookup
     (archs (snd (update_release example_configs 3 ''v1'' False True example_world))
        (fst (update_release example_configs 3 ''v1'' False True example_world))) ''v1'' = Some 0 \<and>
   DAList.lookup
     (dicts (snd (update_release example_configs 3 ''v1'' False True example_world)) 0) ''k''
     = Some ''m.log'' \<and>
   DAList.lookup
     (dicts (snd (update_release example_configs 3 ''v1'' False True example_world)) 0) ''k''
     \<noteq> DAList.lookup (dicts example_world (unmerged example_configs)) ''k''"
  by (simp add: update_release_unfold lookup_merged
        example_world_def example_configs_def example_unmerged_def example_master_def
        example_snapshot_def)

text \<open>
  Claim C8. For every configuration, archive, tag and verbose flag, \<^verbatim>\<open>update_release\<close>
  returns the same archive, and leaves the same store, whether \<^verbatim>\<open>dry_run\<close> is true or
  false: the code never reads the argument.
\<close>

theorem update_release_dry_run_irrelevant:
  "update_release configs archives tag verbose True w =
   update_release configs archives tag verbose False w"
  by (simp add: update_release_unfold)

theorem update_release_dry_run_irrelevant_witness:
  "archs (snd (update_release example_configs 3 ''v1'' True True example_world))
     (fst (update_release example_configs 3 ''v1'' True True example_world)) =
   archs (snd (update_release example_configs 3 ''v1'' True False example_world))
     (fst (update_release example_configs 3 ''v1'' True False example_world))"
  using update_release_dry_run_irrelevant
    [where configs = example_configs and archives = 3 and tag = "''v1''" and verbose = True
       and w = example_world]
  by simp

text \<open>
  Claim C10, as amended. For every archive, configuration and tag, and every tag \<open>t\<close>
  other than \<^verbatim>\<open>tag\<close>, the archive that \<^verbatim>\<open>update_release\<close> returns holds under \<open>t\<close> the
  same dictionary object as the archive given (or nothing, as before), and the contents of
  that dictionary are what they were, unless it is the very object
  \<^verbatim>\<open>configs["unmerged"]\<close>: this one the call updates in place with the items of
  \<^verbatim>\<open>master\<close>, and the entry under \<open>t\<close> changes with it.
\<close>

theorem update_release_other_tags:
  assumes "t \<noteq> tag"
  shows "(let (archives', w') = update_release configs archives tag verbose dry_run w
          in DAList.lookup (archs w' archives') t = DAList.lookup (archs w archives) t \<and>
             (DAList.lookup (archs w archives) t = Some r \<and> r \<noteq> unmerged configs
                \<longrightarrow> dicts w' r = dicts w r) \<and>
             (DAList.lookup (archs w archives) t = Some (unmerged configs)
                \<longrightarrow> DAList.lookup (dicts w' (unmerged configs)) =
                      DAList.lookup (dicts w (unmerged configs)) ++
                      DAList.lookup (dicts w (master configs))))"
  using assms by (simp add: update_release_unfold DAList.lookup_update lookup_dict_update)

theorem update_release_other_tags_witness:
  "''v0'' \<noteq> ''v1'' \<and>
   DAList.lookup (archs example_world 3) ''v0'' = Some 2 \<and>
   2 \<noteq> unmerged example_configs \<and>
   DAList.lookup
     (archs (snd (update_release example_configs 3 ''v1'' False True example_world))
        (fst (update_release example_configs 3 ''v1'' False True example_world))) ''v0''
     = Some 2 \<and>
   dicts (snd (update_release example_configs 3 ''v1'' False True example_world)) 2
     = dicts example_world 2"
proof -
  have h: "''v0'' \<noteq> ''v1''" by simp
  have before: "DAList.lookup (archs example_world 3) ''v0'' = Some 2"
    by (simp add: example_world_def)
  have other: "2 \<noteq> unmerged example_configs"
    by (simp add: example_configs_def)
  from update_release_other_tags
      [OF h, where configs = example_configs and archives = 3 and verbose = False
         and dry_run = True and w = example_world and r = 2,
       unfolded Let_def case_prod_beta]
  have "DAList.lookup
     (archs (snd (update_release example_configs 3 ''v1'' False True example_world))
        (fst (update_release example_configs 3 ''v1'' False True example_world))) ''v0''
     = DAList.lookup (archs example_world 3) ''v0''"
    and "dicts (snd (update_release example_configs 3 ''v1'' False True example_world)) 2
     = dicts example_world 2"
    using before other by blast+
  with h before other show ?thesis by simp
qed

text \<open>
  Claim C10 as stated fails when the archive holds \<^verbatim>\<open>configs["unmerged"]\<close> itself under
  another tag: with \<^verbatim>\<open>unmerged = {"k": "u.log"}\<close>, \<^verbatim>\<open>master = {"k": "m.log", "j": "x.log"}\<close>
  and the archive \<^verbatim>\<open>{"v0": <unmerged>}\<close>, the call for the tag \<^verbatim>\<open>"v1"\<close> leaves the same
  object under \<^verbatim>\<open>"v0"\<close> (reference 0), but the dictionary read there has no key \<^verbatim>\<open>"j"\<close>
  before the call and maps \<^verbatim>\<open>"j"\<close> to \<^verbatim>\<open>"x.log"\<close> after it.
\<close>

theorem update_release_shared_entry_counterexample:
  "''v0'' \<noteq> ''v1'' \<and>
   DAList.lookup (archs shared_world 3) ''v0'' = Some 0 \<and>
   DAList.lookup (dicts shared_world 0) ''j'' = None \<and>
   DAList.lookup
     (archs (snd (update_release example_configs 3 ''v1'' False True shared_world))
        (fst (update_release example_configs 3 ''v1'' False True shared_world))) ''v0''
     = Some 0 \<and>
   DAList.lookup
     (dicts (snd (update_release example_configs 3 ''v1'' False True shared_world)) 0) ''j''
     = Some ''x.log'' \<and>
   dicts (snd (update_release example_configs 3 ''v1'' False True shared_world)) 0
     \<noteq> dicts shared_world 0"
proof -
  have before: "DAList.lookup (dicts shared_world 0) ''j'' = None"
    by (simp add: shared_world_def example_unmerged_def)
  have after: "DAList.lookup
     (dicts (snd (update_release example_configs 3 ''v1'' False True shared_world)) 0) ''j''
     = Some ''x.log''"
    by (simp add: update_release_unfold lookup_merged shared_world_def example_configs_def
          example_unmerged_def example_master_def)
  have entry: "DAList.lookup (archs shared_world 3) ''v0'' = Some 0"
    "DAList.lookup
     (archs (snd (update_release example_configs 3 ''v1'' False True shared_world))
        (fst (update_release example_configs 3 ''v1'' False True shared_world))) ''v0''
     = Some 0"
    by (simp_all add: update_release_unfold DAList.lookup_update shared_world_def)
  from before after
  have "dicts (snd (update_release example_configs 3 ''v1'' False True shared_world)) 0
     \<noteq> dicts shared_world 0"
    by (metis option.distinct(1))
  with before after entry show ?thesis by simp
qed

subsection \<open>Claims about check\<close>

text \<open>
  Claim C4. For every configuration, the files that \<^verbatim>\<open>check\<close> checks are the values of
  \<^verbatim>\<open>master\<close>, in their order, without those that are also a value of \<^verbatim>\<open>unmerged\<close>. So
  when \<^verbatim>\<open>master\<close> and \<^verbatim>\<open>unmerged\<close> share no path, they are all the paths of \<^verbatim>\<open>master\<close>,
  and no path that is a value of both is checked.
\<close>

theorem files_to_check_excludes_unmerged:
  "files_to_check configs w =
     filter (\<lambda>path. path \<notin> set (dict_values (dicts w (unmerged configs))))
       (dict_values (dicts w (master configs))) \<and>
   set (files_to_check configs w) =
     set (dict_values (dicts w (master configs))) - set (dict_values (dicts w (unmerged configs))) \<and>
   (set (dict_values (dicts w (master configs))) \<inter> set (dict_values (dicts w (unmerged configs))) = {}
      \<longrightarrow> files_to_check configs w = dict_values (dicts w (master configs))) \<and>
   set (files_to_check configs w) \<inter>
     (set (dict_values (dicts w (master configs))) \<inter> set (dict_values (dicts w (unmerged configs)))) = {}"
proof -
  have "set (dict_values (dicts w (master configs))) \<inter> set (dict_values (dicts w (unmerged configs))) = {}
      \<Longrightarrow> filter (\<lambda>path. path \<notin> set (dict_values (dicts w (unmerged configs))))
       (dict_values (dicts w (master configs))) = dict_values (dicts w (master configs))"
    by (rule filter_True) auto
  then show ?thesis
    unfolding files_to_check_filter by auto
qed

theorem files_to_check_excludes_unmerged_witness:
  "set (dict_values (dicts example_world (master example_configs))) \<inter>
     set (dict_values (dicts example_world (unmerged example_configs))) = {} \<and>
   files_to_check example_configs example_world = [''m.log'', ''x.log'']"
proof -
  have paths: "dict_values (dicts example_world (master example_configs)) = [''m.log'', ''x.log'']"
    by (simp add: dict_values_def DAList.update.rep_eq DAList.empty.rep_eq
         
                example_world_def example_configs_def example_unmerged_def example_master_def
                example_snapshot_def)
  have h: "set (dict_values (dicts example_world (master example_configs))) \<inter>
     set (dict_values (dicts example_world (unmerged example_configs))) = {}"
    by (simp add: dict_values_def DAList.update.rep_eq DAList.empty.rep_eq
         
                example_world_def example_configs_def example_unmerged_def example_master_def
                example_snapshot_def)
  show ?thesis
    using h paths files_to_check_excludes_unmerged
      [where configs = example_configs and w = example_world]
    by simp
qed

text \<open>
  Claim C5. For every configuration and all fetch functions, the failure report of
  \<^verbatim>\<open>check\<close> is empty if and only if, for every checked file, every line of the parsed
  current contents is among the lines of the parsed master contents; and a file all of
  whose current lines are among its master lines has no entry in the report.
\<close>

theorem check_empty_iff:
  "(fst (check parse_log_lines configs get_master_contents get_current_contents verbose w) = DAList.empty
      \<longleftrightarrow>
    (\<forall>log_file \<in> set (files_to_check configs w).
       \<forall>log_line \<in> set (parse_log_lines (get_current_contents log_file)).
         log_line \<in> set (parse_log_lines (get_master_contents log_file)))) \<and>
   ((\<forall>log_line \<in> set (parse_log_lines (get_current_contents f)).
         log_line \<in> set (parse_log_lines (get_master_contents f)))
      \<longrightarrow> DAList.lookup
            (fst (check parse_log_lines configs get_master_contents get_current_contents verbose w)) f = None)"
  by (auto simp: dict_empty_iff check_lookup filter_empty_conv)

theorem check_empty_iff_witness:
  "fst (check example_parse example_configs example_master_contents
          example_clean_contents False example_world) = DAList.empty"
proof -
  have "\<forall>log_file \<in> set (files_to_check example_configs example_world).
       \<forall>log_line \<in> set (example_parse (example_clean_contents log_file)).
         log_line \<in> set (example_parse (example_master_contents log_file))"
    by (simp add: example_parse_def example_master_contents_def example_clean_contents_def)
  then show ?thesis
    using check_empty_iff
      [where parse_log_lines = example_parse and configs = example_configs
         and get_master_contents = example_master_contents
         and get_current_contents = example_clean_contents and verbose = False
         and w = example_world]
    by blast
qed



text \<open>
  Claim C9. For every configuration and all fetch functions, \<^verbatim>\<open>check\<close> leaves the
  configuration as it is: after the call its \<^verbatim>\<open>unmerged\<close> and \<^verbatim>\<open>master\<close> dictionaries are
  what they were before, as is every other dictionary and archive of the store.
\<close>

theorem check_leaves_configs_unchanged:
  "(let (failures, w') = check parse_log_lines configs get_master_contents get_current_contents verbose w
    in dicts w' (unmerged configs) = dicts w (unmerged configs) \<and>
       dicts w' (master configs) = dicts w (master configs) \<and>
       dicts w' = dicts w \<and> archs w' = archs w)"
  using check_frame [of parse_log_lines configs get_master_contents get_current_contents verbose w]
  by (simp add: case_prod_beta)

theorem check_leaves_configs_unchanged_witness:
  "dicts (snd (check example_parse example_configs example_master_contents
                 example_regressed_contents True example_world)) (unmerged example_configs)
     = dicts example_world (unmerged example_configs) \<and>
   dicts (snd (check example_parse example_configs example_master_contents
                 example_regressed_contents True example_world)) (master example_configs)
     = dicts example_world (master example_configs)"
  using check_leaves_configs_unchanged
    [where parse_log_lines = example_parse and configs = example_configs
       and get_master_contents = example_master_contents
       and get_current_contents = example_regressed_contents and verbose = True
       and w = example_world]
  by (simp add: case_prod_beta)

end
